theory Spec2Isabelle
  imports Main "HOL-Library.Word"
begin

section \<open>Signing and verification of NeoFS service messages\<close>

text \<open>
  A shallow embedding of the message trust layer of neofs-sdk-go: the scheme registry
  and the signer contract of package \<^verbatim>\<open>neofscrypto\<close> (crypto/signer.go) and the
  signing and verification protocol of package \<^verbatim>\<open>client\<close> (signServiceMessage,
  verifyServiceMessage and their helpers).

  Go values are modelled as follows. A byte slice is a list of 8-bit words. A pointer
  that may be nil is an \<open>option\<close>. A panic is the outcome \<open>Panic\<close>; a function that
  returns is \<open>Return\<close>. An \<^verbatim>\<open>error\<close> result is an \<open>err option\<close> (\<open>None\<close> is the nil
  error). A function that mutates the message returns the message after the call.
\<close>

type_synonym bytes = "8 word list"

datatype 'a outcome = Panic string | Return 'a

text \<open>
  Errors: \<^verbatim>\<open>errors.New\<close> and \<^verbatim>\<open>fmt.Errorf\<close> without a wrapped cause are \<open>Err\<close> with the
  message (a \<^verbatim>\<open>%T\<close> or \<^verbatim>\<open>%v\<close> verb is kept as written); \<^verbatim>\<open>fmt.Errorf\<close> with a \<^verbatim>\<open>%w\<close>
  verb is \<open>Errorf\<close> with its format string and the wrapped cause; \<^verbatim>\<open>NewSignError\<close> is
  \<open>SignError\<close> around its cause.
\<close>

datatype err = Err string | Errorf string err | SignError err

subsection \<open>crypto/signer.go\<close>

text \<open>\<^verbatim>\<open>type Scheme int32\<close>; the constants start at \<^verbatim>\<open>iota - 1\<close> with a blank first entry.\<close>

type_synonym Scheme = "32 word"

definition ECDSA_SHA512 :: Scheme where
  "ECDSA_SHA512 = 0"

definition ECDSA_DETERMINISTIC_SHA256 :: Scheme where
  "ECDSA_DETERMINISTIC_SHA256 = 1"

definition ECDSA_WALLETCONNECT :: Scheme where
  "ECDSA_WALLETCONNECT = 2"

text \<open>
  The interface \<^verbatim>\<open>PublicKey\<close>. \<open>Encode\<close> is the binary encoding that the method of
  that name writes into a buffer of \<^verbatim>\<open>MaxEncodedSize\<close> bytes; \<open>Verify\<close> is the method
  of that name.
\<close>

record PublicKey =
  Encode :: bytes
  Verify :: "bytes \<Rightarrow> bytes \<Rightarrow> bool"

text \<open>The interface \<^verbatim>\<open>Signer\<close>: \<open>Sign\<close> returns the signature bytes or an error.\<close>

record Signer =
  Scheme :: Scheme
  Sign :: "bytes \<Rightarrow> err + bytes"
  Public :: PublicKey

text \<open>\<^verbatim>\<open>StaticSigner\<close>: \<open>Sign\<close> returns the stored bytes whatever the data.\<close>

definition NewStaticSigner :: "Scheme \<Rightarrow> bytes \<Rightarrow> PublicKey \<Rightarrow> Signer" where
  "NewStaticSigner scheme sig pubKey =
     \<lparr>Scheme = scheme, Sign = (\<lambda>_. Inr sig), Public = pubKey\<rparr>"

text \<open>
  The registry \<^verbatim>\<open>publicKeys\<close> is a package-level map from \<open>Scheme\<close> to a constructor
  of a blank public key, empty at start-up. \<open>RegisterScheme\<close> takes the map as it is
  before the call and returns it as it is after, or panics.
\<close>

type_synonym registry = "Scheme \<rightharpoonup> (unit \<Rightarrow> PublicKey)"

definition publicKeys :: registry where
  "publicKeys = Map.empty"

definition RegisterScheme :: "Scheme \<Rightarrow> (unit \<Rightarrow> PublicKey) \<Rightarrow> registry \<Rightarrow> registry outcome" where
  "RegisterScheme scheme f reg =
     (case reg scheme of
        Some _ \<Rightarrow> Panic ''scheme %v is already registered''
      | None \<Rightarrow> Return (reg(scheme \<mapsto> f)))"

text \<open>
  A start-up sequence of \<open>RegisterScheme\<close> calls, one per entry of the list, in order;
  the first panic ends it.
\<close>

fun RegisterSchemes :: "(Scheme \<times> (unit \<Rightarrow> PublicKey)) list \<Rightarrow> registry \<Rightarrow> registry outcome" where
  "RegisterSchemes [] reg = Return reg"
| "RegisterSchemes ((scheme, f) # rest) reg =
     (case RegisterScheme scheme f reg of
        Panic p \<Rightarrow> Panic p
      | Return reg' \<Rightarrow> RegisterSchemes rest reg')"

subsection \<open>Messages of the API library\<close>

text \<open>\<^verbatim>\<open>refs.Signature\<close>: public key bytes, signature bytes and scheme.\<close>

record Signature =
  sigKey :: bytes
  sigSign :: bytes
  sigScheme :: Scheme

text \<open>
  \<^verbatim>\<open>session.RequestVerificationHeader\<close> and \<^verbatim>\<open>session.ResponseVerificationHeader\<close>
  have the same four fields; the interface \<^verbatim>\<open>verificationHeader\<close> of the client
  package unites them, and so does this datatype.
\<close>

datatype VerificationHeader =
  VerificationHeader
    (bodySig: "Signature option")
    (metaSig: "Signature option")
    (originSig: "Signature option")
    (origin: "VerificationHeader option")

text \<open>
  A meta header (\<^verbatim>\<open>session.RequestMetaHeader\<close>, \<^verbatim>\<open>session.ResponseMetaHeader\<close>):
  its own fields, left opaque as a value of type \<open>'m\<close>, and the origin link.
\<close>

datatype 'm MetaHeader =
  MetaHeader (metaFields: 'm) (metaOrigin: "'m MetaHeader option")

text \<open>
  The fields that every request and response type carries: the body (a pointer to a
  structure of the message's own body type, opaque here as \<open>'b\<close>), the meta header and
  the verification header.
\<close>

record ('b, 'm) ServiceMessage =
  body :: "'b option"
  metaHeader :: "'m MetaHeader option"
  verificationHeader :: "VerificationHeader option"

text \<open>
  The request types and the response types that serviceMessageBody lists, by package.
  \<open>OtherRequest\<close> stands for any further type with the three methods of the interface
  \<^verbatim>\<open>serviceRequest\<close>, \<open>OtherResponse\<close> for any further type with those of
  \<^verbatim>\<open>serviceResponse\<close>.
\<close>

datatype RequestType =
    AccountingBalanceRequest
  | SessionCreateRequest
  | ContainerPutRequest
  | ContainerDeleteRequest
  | ContainerGetRequest
  | ContainerListRequest
  | ContainerSetExtendedACLRequest
  | ContainerGetExtendedACLRequest
  | ContainerAnnounceUsedSpaceRequest
  | ObjectPutRequest
  | ObjectGetRequest
  | ObjectHeadRequest
  | ObjectSearchRequest
  | ObjectDeleteRequest
  | ObjectGetRangeRequest
  | ObjectGetRangeHashRequest
  | NetmapLocalNodeInfoRequest
  | NetmapNetworkInfoRequest
  | NetmapSnapshotRequest
  | ReputationAnnounceLocalTrustRequest
  | ReputationAnnounceIntermediateResultRequest
  | OtherRequest

datatype ResponseType =
    AccountingBalanceResponse
  | SessionCreateResponse
  | ContainerPutResponse
  | ContainerDeleteResponse
  | ContainerGetResponse
  | ContainerListResponse
  | ContainerSetExtendedACLResponse
  | ContainerGetExtendedACLResponse
  | ContainerAnnounceUsedSpaceResponse
  | ObjectPutResponse
  | ObjectGetResponse
  | ObjectHeadResponse
  | ObjectSearchResponse
  | ObjectDeleteResponse
  | ObjectGetRangeResponse
  | ObjectGetRangeHashResponse
  | NetmapLocalNodeInfoResponse
  | NetmapNetworkInfoResponse
  | NetmapSnapshotResponse
  | ReputationAnnounceLocalTrustResponse
  | ReputationAnnounceIntermediateResultResponse
  | OtherResponse

text \<open>
  A value of type \<^verbatim>\<open>interface{}\<close> as signServiceMessage and verifyServiceMessage
  receive it: nil, a request, a response, or a value of a type that has neither
  capability.
\<close>

datatype ('b, 'm) msg =
    NilMsg
  | Request RequestType "('b, 'm) ServiceMessage"
  | Response ResponseType "('b, 'm) ServiceMessage"
  | OtherValue

text \<open>
  A value of the interface \<^verbatim>\<open>stableMarshaler\<close>: the nil interface, or a pointer
  (itself possibly nil) to a body, a meta header or a verification header.
\<close>

datatype ('b, 'm) stableMarshaler =
    NilMarshaler
  | Body "'b option"
  | Meta "'m MetaHeader option"
  | Verification "VerificationHeader option"

text \<open>
  What the client package takes from the API library neofs-api-go, as parameters: the
  stable serialization of a body, of a meta header and of a verification header, and
  the signature check of \<^verbatim>\<open>signature.VerifyDataWithSource\<close>, which is given the signed
  data and the signature that the reader returns and answers with an error or nil.
\<close>

record ('b, 'm) api =
  marshalBody :: "'b \<Rightarrow> bytes"
  marshalMeta :: "'m MetaHeader \<Rightarrow> bytes"
  marshalVerify :: "VerificationHeader \<Rightarrow> bytes"
  verifyData :: "bytes \<Rightarrow> Signature option \<Rightarrow> err option"

text \<open>
  \<^verbatim>\<open>StableMarshal\<close> of the library's types answers a nil receiver with empty data.
  The nil interface has no method to call; its callers test for it first.
\<close>

fun StableMarshal :: "('b, 'm) api \<Rightarrow> ('b, 'm) stableMarshaler \<Rightarrow> bytes" where
  "StableMarshal a NilMarshaler = []"
| "StableMarshal a (Body None) = []"
| "StableMarshal a (Body (Some b)) = marshalBody a b"
| "StableMarshal a (Meta None) = []"
| "StableMarshal a (Meta (Some m)) = marshalMeta a m"
| "StableMarshal a (Verification None) = []"
| "StableMarshal a (Verification (Some h)) = marshalVerify a h"

text \<open>The getters of the library's generated types answer a nil receiver with nil.\<close>

definition GetBodySignature :: "VerificationHeader option \<Rightarrow> Signature option" where
  "GetBodySignature h = (case h of None \<Rightarrow> None | Some v \<Rightarrow> bodySig v)"

definition GetMetaSignature :: "VerificationHeader option \<Rightarrow> Signature option" where
  "GetMetaSignature h = (case h of None \<Rightarrow> None | Some v \<Rightarrow> metaSig v)"

definition GetOriginSignature :: "VerificationHeader option \<Rightarrow> Signature option" where
  "GetOriginSignature h = (case h of None \<Rightarrow> None | Some v \<Rightarrow> originSig v)"

fun SetBodySignature :: "Signature option \<Rightarrow> VerificationHeader \<Rightarrow> VerificationHeader" where
  "SetBodySignature s (VerificationHeader b m os org) = VerificationHeader s m os org"

fun SetMetaSignature :: "Signature option \<Rightarrow> VerificationHeader \<Rightarrow> VerificationHeader" where
  "SetMetaSignature s (VerificationHeader b m os org) = VerificationHeader b s os org"

fun SetOriginSignature :: "Signature option \<Rightarrow> VerificationHeader \<Rightarrow> VerificationHeader" where
  "SetOriginSignature s (VerificationHeader b m os org) = VerificationHeader b m s org"

fun SetOrigin :: "VerificationHeader option \<Rightarrow> VerificationHeader \<Rightarrow> VerificationHeader" where
  "SetOrigin v (VerificationHeader b m os org) = VerificationHeader b m os v"

subsection \<open>The wrappers of the client package\<close>

text \<open>
  \<^verbatim>\<open>requestMetaHeader.getOrigin\<close> and \<^verbatim>\<open>responseMetaHeader.getOrigin\<close>: a new wrapper
  around the origin of the wrapped pointer, nil when that pointer or its origin is.
  A wrapper is modelled by the pointer it holds.
\<close>

definition getOriginMeta :: "'m MetaHeader option \<Rightarrow> 'm MetaHeader option" where
  "getOriginMeta h = (case h of None \<Rightarrow> None | Some m \<Rightarrow> metaOrigin m)"

text \<open>
  \<^verbatim>\<open>requestVerificationHeader.getOrigin\<close> and its response twin: the nil interface
  (\<open>None\<close>) when the origin is nil, else a wrapper around the origin.
\<close>

definition getOrigin :: "VerificationHeader option \<Rightarrow> VerificationHeader option" where
  "getOrigin h = (case h of None \<Rightarrow> None | Some v \<Rightarrow> origin v)"

text \<open>
  \<^verbatim>\<open>setOrigin\<close>: nothing for the nil interface; else the type assertion to the
  verification header type, which panics on any other dynamic type.
\<close>

fun setOrigin :: "('b, 'm) stableMarshaler \<Rightarrow> VerificationHeader \<Rightarrow> VerificationHeader outcome" where
  "setOrigin NilMarshaler h = Return h"
| "setOrigin (Verification v) h = Return (SetOrigin v h)"
| "setOrigin (Body b) h = Panic ''interface conversion''"
| "setOrigin (Meta m) h = Panic ''interface conversion''"

text \<open>\<^verbatim>\<open>stableMarshalerWrapper.ReadSignedData\<close>: no data for the nil interface.\<close>

definition ReadSignedData :: "('b, 'm) api \<Rightarrow> ('b, 'm) stableMarshaler \<Rightarrow> bytes" where
  "ReadSignedData a SM =
     (case SM of NilMarshaler \<Rightarrow> [] | _ \<Rightarrow> StableMarshal a SM)"

subsection \<open>The message adapter\<close>

text \<open>
  serviceMessageBody: the type switch over the concrete message types, each case
  returning the body of that message as a \<^verbatim>\<open>stableMarshaler\<close>; any other value takes
  the \<^verbatim>\<open>default\<close> case and panics.
\<close>

fun serviceMessageBody :: "('b, 'm) msg \<Rightarrow> ('b, 'm) stableMarshaler outcome" where
  "serviceMessageBody (Request AccountingBalanceRequest v) = Return (Body (body v))"
| "serviceMessageBody (Response AccountingBalanceResponse v) = Return (Body (body v))"
| "serviceMessageBody (Request SessionCreateRequest v) = Return (Body (body v))"
| "serviceMessageBody (Response SessionCreateResponse v) = Return (Body (body v))"
| "serviceMessageBody (Request ContainerPutRequest v) = Return (Body (body v))"
| "serviceMessageBody (Response ContainerPutResponse v) = Return (Body (body v))"
| "serviceMessageBody (Request ContainerDeleteRequest v) = Return (Body (body v))"
| "serviceMessageBody (Response ContainerDeleteResponse v) = Return (Body (body v))"
| "serviceMessageBody (Request ContainerGetRequest v) = Return (Body (body v))"
| "serviceMessageBody (Response ContainerGetResponse v) = Return (Body (body v))"
| "serviceMessageBody (Request ContainerListRequest v) = Return (Body (body v))"
| "serviceMessageBody (Response ContainerListResponse v) = Return (Body (body v))"
| "serviceMessageBody (Request ContainerSetExtendedACLRequest v) = Return (Body (body v))"
| "serviceMessageBody (Response ContainerSetExtendedACLResponse v) = Return (Body (body v))"
| "serviceMessageBody (Request ContainerGetExtendedACLRequest v) = Return (Body (body v))"
| "serviceMessageBody (Response ContainerGetExtendedACLResponse v) = Return (Body (body v))"
| "serviceMessageBody (Request ContainerAnnounceUsedSpaceRequest v) = Return (Body (body v))"
| "serviceMessageBody (Response ContainerAnnounceUsedSpaceResponse v) = Return (Body (body v))"
| "serviceMessageBody (Request ObjectPutRequest v) = Return (Body (body v))"
| "serviceMessageBody (Response ObjectPutResponse v) = Return (Body (body v))"
| "serviceMessageBody (Request ObjectGetRequest v) = Return (Body (body v))"
| "serviceMessageBody (Response ObjectGetResponse v) = Return (Body (body v))"
| "serviceMessageBody (Request ObjectHeadRequest v) = Return (Body (body v))"
| "serviceMessageBody (Response ObjectHeadResponse v) = Return (Body (body v))"
| "serviceMessageBody (Request ObjectSearchRequest v) = Return (Body (body v))"
| "serviceMessageBody (Response ObjectSearchResponse v) = Return (Body (body v))"
| "serviceMessageBody (Request ObjectDeleteRequest v) = Return (Body (body v))"
| "serviceMessageBody (Response ObjectDeleteResponse v) = Return (Body (body v))"
| "serviceMessageBody (Request ObjectGetRangeRequest v) = Return (Body (body v))"
| "serviceMessageBody (Response ObjectGetRangeResponse v) = Return (Body (body v))"
| "serviceMessageBody (Request ObjectGetRangeHashRequest v) = Return (Body (body v))"
| "serviceMessageBody (Response ObjectGetRangeHashResponse v) = Return (Body (body v))"
| "serviceMessageBody (Request NetmapLocalNodeInfoRequest v) = Return (Body (body v))"
| "serviceMessageBody (Response NetmapLocalNodeInfoResponse v) = Return (Body (body v))"
| "serviceMessageBody (Request NetmapNetworkInfoRequest v) = Return (Body (body v))"
| "serviceMessageBody (Response NetmapNetworkInfoResponse v) = Return (Body (body v))"
| "serviceMessageBody (Request NetmapSnapshotRequest v) = Return (Body (body v))"
| "serviceMessageBody (Response NetmapSnapshotResponse v) = Return (Body (body v))"
| "serviceMessageBody (Request ReputationAnnounceLocalTrustRequest v) = Return (Body (body v))"
| "serviceMessageBody (Response ReputationAnnounceLocalTrustResponse v) = Return (Body (body v))"
| "serviceMessageBody (Request ReputationAnnounceIntermediateResultRequest v) = Return (Body (body v))"
| "serviceMessageBody (Response ReputationAnnounceIntermediateResultResponse v) = Return (Body (body v))"
| "serviceMessageBody _ = Panic ''unsupported session message %T''"

subsection \<open>Signing\<close>

text \<open>
  Modelled from the spec: the method \<^verbatim>\<open>CalculateMarshalled\<close> of \<^verbatim>\<open>neofscrypto.Signature\<close>
  (its source file is not among the sources). The spec's \<open>compute(signer, payload)\<close>
  serializes the payload (a nil payload serializes to zero-length data, never an error),
  invokes the signer's \<open>sign\<close> on the serialized data, and packages the signer's scheme,
  the encoding of its public key and the signature bytes; it fails when the \<open>sign\<close>
  call fails.
\<close>

definition CalculateMarshalled ::
  "('b, 'm) api \<Rightarrow> Signer \<Rightarrow> ('b, 'm) stableMarshaler \<Rightarrow> err + Signature" where
  "CalculateMarshalled a signer obj =
     (case Sign signer (case obj of NilMarshaler \<Rightarrow> [] | _ \<Rightarrow> StableMarshal a obj) of
        Inl e \<Rightarrow> Inl e
      | Inr s \<Rightarrow> Inr \<lparr>sigKey = Encode (Public signer), sigSign = s, sigScheme = Scheme signer\<rparr>)"

text \<open>
  signServiceMessagePart: compute the signature of the part and hand it to the writer
  \<open>sigWrite\<close>, a setter of the header under construction \<open>hdr\<close>. On an error the writer
  is not called.
\<close>

definition signServiceMessagePart ::
  "('b, 'm) api \<Rightarrow> Signer \<Rightarrow> ('b, 'm) stableMarshaler
     \<Rightarrow> (Signature option \<Rightarrow> VerificationHeader \<Rightarrow> VerificationHeader)
     \<Rightarrow> VerificationHeader \<Rightarrow> err + VerificationHeader" where
  "signServiceMessagePart a signer part sigWrite hdr =
     (case CalculateMarshalled a signer part of
        Inl e \<Rightarrow> Inl (Errorf ''calculate %w'' e)
      | Inr sig \<Rightarrow> Inr (sigWrite (Some sig) hdr))"

text \<open>
  The part of signServiceMessage after its type switch (the three signatures, the
  nesting of the previous header and the installation of the new one), which both the
  request and the response case run. \<open>msg\<close> is the message as it came in, returned
  as it is with the error when a signature cannot be computed; \<open>verifyHdrSetter\<close>
  gives the message with the new header installed.
\<close>

definition signServiceMessageParts ::
  "('b, 'm) api \<Rightarrow> Signer \<Rightarrow> ('b, 'm) msg
     \<Rightarrow> ('b, 'm) stableMarshaler \<Rightarrow> ('b, 'm) stableMarshaler \<Rightarrow> ('b, 'm) stableMarshaler
     \<Rightarrow> VerificationHeader \<Rightarrow> (VerificationHeader \<Rightarrow> ('b, 'm) msg)
     \<Rightarrow> (('b, 'm) msg \<times> err option) outcome" where
  "signServiceMessageParts a signer msg bdy meta verifyOrigin verifyHdr verifyHdrSetter =
     (case (case verifyOrigin of
              NilMarshaler \<Rightarrow> signServiceMessagePart a signer bdy SetBodySignature verifyHdr
            | _ \<Rightarrow> Inr verifyHdr) of
        Inl e \<Rightarrow> Return (msg, Some (SignError (Errorf ''body: %w'' e)))
      | Inr hdr1 \<Rightarrow>
          (case signServiceMessagePart a signer meta SetMetaSignature hdr1 of
             Inl e \<Rightarrow> Return (msg, Some (SignError (Errorf ''meta header: %w'' e)))
           | Inr hdr2 \<Rightarrow>
               (case signServiceMessagePart a signer verifyOrigin SetOriginSignature hdr2 of
                  Inl e \<Rightarrow>
                    Return (msg, Some (SignError (Errorf ''origin of verification header: %w'' e)))
                | Inr hdr3 \<Rightarrow>
                    (case setOrigin verifyOrigin hdr3 of
                       Panic p \<Rightarrow> Panic p
                     | Return hdr4 \<Rightarrow> Return (verifyHdrSetter hdr4, None)))))"

text \<open>
  signServiceMessage. The result is the message after the call and the returned
  error. In the request and in the response case the body comes from
  serviceMessageBody (whose panic ends the call), the meta header from the message,
  the new header starts with all four fields nil, and the previous verification
  header, when the message has one, is the origin to sign and to nest.
\<close>

definition signServiceMessage ::
  "('b, 'm) api \<Rightarrow> Signer \<Rightarrow> ('b, 'm) msg \<Rightarrow> (('b, 'm) msg \<times> err option) outcome" where
  "signServiceMessage a signer msg =
     (case msg of
        NilMsg \<Rightarrow> Return (msg, None)
      | Request t v \<Rightarrow>
          (case serviceMessageBody msg of
             Panic p \<Rightarrow> Panic p
           | Return bdy \<Rightarrow>
               signServiceMessageParts a signer msg bdy (Meta (metaHeader v))
                 (case verificationHeader v of
                    None \<Rightarrow> NilMarshaler
                  | Some h \<Rightarrow> Verification (Some h))
                 (VerificationHeader None None None None)
                 (\<lambda>h. Request t (v\<lparr>verificationHeader := Some h\<rparr>)))
      | Response t v \<Rightarrow>
          (case serviceMessageBody msg of
             Panic p \<Rightarrow> Panic p
           | Return bdy \<Rightarrow>
               signServiceMessageParts a signer msg bdy (Meta (metaHeader v))
                 (case verificationHeader v of
                    None \<Rightarrow> NilMarshaler
                  | Some h \<Rightarrow> Verification (Some h))
                 (VerificationHeader None None None None)
                 (\<lambda>h. Response t (v\<lparr>verificationHeader := Some h\<rparr>)))
      | OtherValue \<Rightarrow>
          Return (msg, Some (SignError (Err ''unsupported session message %T''))))"

subsection \<open>Verification\<close>

text \<open>
  verifyServiceMessagePart: \<^verbatim>\<open>signature.VerifyDataWithSource\<close> on the part wrapped as
  a data source and on the signature read from the header. The scratch buffer passed
  along only saves allocations and is left out.
\<close>

definition verifyServiceMessagePart ::
  "('b, 'm) api \<Rightarrow> ('b, 'm) stableMarshaler \<Rightarrow> Signature option \<Rightarrow> err option" where
  "verifyServiceMessagePart a part sig = verifyData a (ReadSignedData a part) sig"

text \<open>
  verifyMatryoshkaLevel. \<open>meta\<close> and \<open>verify\<close> are the pointers held by the two
  wrappers; \<open>verify\<close> is nil only at the outermost level, of a message without a
  verification header. The recursion follows the origin link of the verification
  header, which is a finite chain.
\<close>

function verifyMatryoshkaLevel ::
  "('b, 'm) api \<Rightarrow> ('b, 'm) stableMarshaler \<Rightarrow> 'm MetaHeader option
     \<Rightarrow> VerificationHeader option \<Rightarrow> err option" where
  "verifyMatryoshkaLevel a bdy meta verify =
     (case verifyServiceMessagePart a (Meta meta) (GetMetaSignature verify) of
        Some e \<Rightarrow> Some (Errorf ''could not verify meta header: %w'' e)
      | None \<Rightarrow>
          (case verifyServiceMessagePart a
                  (case getOrigin verify of
                     None \<Rightarrow> NilMarshaler
                   | Some org \<Rightarrow> Verification (Some org))
                  (GetOriginSignature verify) of
             Some e \<Rightarrow> Some (Errorf ''could not verify origin of verification header: %w'' e)
           | None \<Rightarrow>
               (case getOrigin verify of
                  None \<Rightarrow>
                    (case verifyServiceMessagePart a bdy (GetBodySignature verify) of
                       Some e \<Rightarrow> Some (Errorf ''could not verify body: %w'' e)
                     | None \<Rightarrow> None)
                | Some org \<Rightarrow>
                    (if GetBodySignature verify \<noteq> None
                     then Some (Err ''body signature at the matryoshka upper level'')
                     else verifyMatryoshkaLevel a bdy (getOriginMeta meta) (Some org)))))"
  by pat_completeness auto
termination
  apply (relation "measure (\<lambda>(a, bdy, meta, verify). size_option size verify)")
   apply simp
  apply (auto simp: getOrigin_def split: option.splits)
  subgoal for a meta org v
    by (cases v) auto
  done

text \<open>
  verifyServiceMessage. The buffer size computed from the three stable sizes has no
  effect on the result and is left out.
\<close>

definition verifyServiceMessage :: "('b, 'm) api \<Rightarrow> ('b, 'm) msg \<Rightarrow> err option outcome" where
  "verifyServiceMessage a msg =
     (case msg of
        NilMsg \<Rightarrow> Return None
      | Request t v \<Rightarrow>
          (case serviceMessageBody msg of
             Panic p \<Rightarrow> Panic p
           | Return bdy \<Rightarrow>
               Return (verifyMatryoshkaLevel a bdy (metaHeader v) (verificationHeader v)))
      | Response t v \<Rightarrow>
          (case serviceMessageBody msg of
             Panic p \<Rightarrow> Panic p
           | Return bdy \<Rightarrow>
               Return (verifyMatryoshkaLevel a bdy (metaHeader v) (verificationHeader v)))
      | OtherValue \<Rightarrow> Return (Some (Err ''unsupported session message %T'')))"

declare verifyMatryoshkaLevel.simps [simp del]

subsection \<open>A concrete instance\<close>

text \<open>
  An instance of the library parameters and of the signer contract on which the
  protocol can be run: serializations that write the fields one after the other, a
  signer with key \<open>k\<close> whose signature of the data is the key followed by the data, and a
  check that accepts a signature exactly when it is the signature's key followed by the
  data. A missing signature is rejected, as the library rejects it for its missing key.
\<close>

fun exampleMarshalMeta :: "bytes MetaHeader \<Rightarrow> bytes" where
  "exampleMarshalMeta (MetaHeader f None) = f"
| "exampleMarshalMeta (MetaHeader f (Some m)) = f @ 255 # exampleMarshalMeta m"

definition exampleMarshalSig :: "Signature option \<Rightarrow> bytes" where
  "exampleMarshalSig s = (case s of None \<Rightarrow> [0] | Some x \<Rightarrow> 1 # sigKey x @ sigSign x)"

fun exampleMarshalVerify :: "VerificationHeader \<Rightarrow> bytes" where
  "exampleMarshalVerify (VerificationHeader b m os None) =
     exampleMarshalSig b @ exampleMarshalSig m @ exampleMarshalSig os"
| "exampleMarshalVerify (VerificationHeader b m os (Some h)) =
     exampleMarshalSig b @ exampleMarshalSig m @ exampleMarshalSig os @ 255 # exampleMarshalVerify h"

definition exampleVerifyData :: "bytes \<Rightarrow> Signature option \<Rightarrow> err option" where
  "exampleVerifyData d sig =
     (case sig of
        None \<Rightarrow> Some (Err ''missing signature'')
      | Some s \<Rightarrow> if sigSign s = sigKey s @ d then None else Some (Err ''invalid signature''))"

definition exampleApi :: "(bytes, bytes) api" where
  "exampleApi =
     \<lparr>marshalBody = (\<lambda>b. b), marshalMeta = exampleMarshalMeta,
      marshalVerify = exampleMarshalVerify, verifyData = exampleVerifyData\<rparr>"

definition exampleKey :: PublicKey where
  "exampleKey = \<lparr>Encode = [9], Verify = (\<lambda>d s. s = 9 # d)\<rparr>"

text \<open>A constructor of a blank public key, as a scheme implementation registers it.\<close>

definition newExampleKey :: "unit \<Rightarrow> PublicKey" where
  "newExampleKey = (\<lambda>_. exampleKey)"

definition exampleSigner :: Signer where
  "exampleSigner =
     \<lparr>Scheme = ECDSA_DETERMINISTIC_SHA256, Sign = (\<lambda>d. Inr (9 # d)), Public = exampleKey\<rparr>"

text \<open>The signature that \<open>exampleSigner\<close> computes of the data \<open>d\<close>.\<close>

definition exampleSig :: "bytes \<Rightarrow> Signature" where
  "exampleSig d = \<lparr>sigKey = [9], sigSign = 9 # d, sigScheme = ECDSA_DETERMINISTIC_SHA256\<rparr>"

text \<open>A signer like \<open>exampleSigner\<close> whose \<open>Sign\<close> fails on the data \<open>bad\<close>.\<close>

definition pickySigner :: "bytes \<Rightarrow> Signer" where
  "pickySigner bad =
     \<lparr>Scheme = ECDSA_DETERMINISTIC_SHA256,
      Sign = (\<lambda>d. if d = bad then Inl (Err ''refused'') else Inr (9 # d)),
      Public = exampleKey\<rparr>"

text \<open>
  A request with a body and a meta header and no verification header; the header that
  \<open>exampleSigner\<close> builds for it; the request with that header; the header that a
  second signing of the same request builds, and the request with it.
\<close>

definition exampleFields :: "(bytes, bytes) ServiceMessage" where
  "exampleFields =
     \<lparr>body = Some [1, 2], metaHeader = Some (MetaHeader [7] None), verificationHeader = None\<rparr>"

definition exampleHdr1 :: VerificationHeader where
  "exampleHdr1 =
     VerificationHeader (Some (exampleSig [1, 2])) (Some (exampleSig [7])) (Some (exampleSig [])) None"

definition exampleHdr2 :: VerificationHeader where
  "exampleHdr2 =
     VerificationHeader None (Some (exampleSig [7]))
       (Some (exampleSig (exampleMarshalVerify exampleHdr1))) (Some exampleHdr1)"

text \<open>
  The same request as a relay forwards it: the meta header wrapped in a new one; and
  the header that signing it on top of \<open>exampleHdr1\<close> builds.
\<close>

definition relayedFields :: "(bytes, bytes) ServiceMessage" where
  "relayedFields =
     \<lparr>body = Some [1, 2], metaHeader = Some (MetaHeader [8] (Some (MetaHeader [7] None))),
      verificationHeader = Some exampleHdr1\<rparr>"

definition relayedHdr :: VerificationHeader where
  "relayedHdr =
     VerificationHeader None (Some (exampleSig [8, 255, 7]))
       (Some (exampleSig (exampleMarshalVerify exampleHdr1))) (Some exampleHdr1)"

text \<open>
  A header above \<open>exampleHdr1\<close> that also carries a body signature, valid for the body
  of the example request.
\<close>

definition upperBodyHdr :: VerificationHeader where
  "upperBodyHdr =
     VerificationHeader (Some (exampleSig [1, 2])) (Some (exampleSig [7]))
       (Some (exampleSig (exampleMarshalVerify exampleHdr1))) (Some exampleHdr1)"

text \<open>
  An innermost header whose meta signature and origin signature are both signatures of
  other data; and one whose meta signature is right and whose origin signature is not
  a signature of zero-length data.
\<close>

definition badMetaHdr :: VerificationHeader where
  "badMetaHdr =
     VerificationHeader (Some (exampleSig [1, 2])) (Some (exampleSig [6]))
       (Some (exampleSig [5])) None"

definition badOriginHdr :: VerificationHeader where
  "badOriginHdr =
     VerificationHeader (Some (exampleSig [1, 2])) (Some (exampleSig [7]))
       (Some (exampleSig [5])) None"

section \<open>Properties\<close>

subsection \<open>Evaluation of the concrete instance\<close>

lemma exampleApi_simps:
  "marshalBody exampleApi = (\<lambda>b. b)"
  "marshalMeta exampleApi = exampleMarshalMeta"
  "marshalVerify exampleApi = exampleMarshalVerify"
  "verifyData exampleApi = exampleVerifyData"
  by (simp_all add: exampleApi_def)

lemma exampleSigner_simps:
  "Scheme exampleSigner = ECDSA_DETERMINISTIC_SHA256"
  "Sign exampleSigner d = Inr (9 # d)"
  "Encode (Public exampleSigner) = [9]"
  by (simp_all add: exampleSigner_def exampleKey_def)

lemma exampleSigner_calculates:
  "CalculateMarshalled exampleApi exampleSigner part =
     Inr (exampleSig (ReadSignedData exampleApi part))"
  by (simp add: CalculateMarshalled_def ReadSignedData_def exampleSigner_simps exampleSig_def)

lemma exampleVerifyData_exampleSig:
  "exampleVerifyData d (Some (exampleSig d')) = (if d' = d then None else Some (Err ''invalid signature''))"
  by (simp add: exampleVerifyData_def exampleSig_def)

subsection \<open>The scheme registry\<close>

lemma RegisterSchemes_lookup:
  "distinct (map fst regs) \<Longrightarrow> \<forall>s \<in> fst ` set regs. reg0 s = None \<Longrightarrow>
   \<exists>reg. RegisterSchemes regs reg0 = Return reg \<and>
     (\<forall>s. reg s = (case map_of regs s of Some f \<Rightarrow> Some f | None \<Rightarrow> reg0 s))"
proof (induction regs arbitrary: reg0)
  case Nil
  then show ?case by simp
next
  case (Cons p regs)
  obtain s f where p: "p = (s, f)" by (cases p)
  from Cons.prems p have fresh: "reg0 s = None" by simp
  from Cons.prems p have d: "distinct (map fst regs)" and notin: "s \<notin> fst ` set regs"
    by auto
  have "\<forall>x \<in> fst ` set regs. (reg0(s \<mapsto> f)) x = None"
    using Cons.prems(2) notin by auto
  from Cons.IH [OF d this] obtain reg where
    run: "RegisterSchemes regs (reg0(s \<mapsto> f)) = Return reg" and
    look: "\<forall>x. reg x = (case map_of regs x of Some g \<Rightarrow> Some g | None \<Rightarrow> (reg0(s \<mapsto> f)) x)"
    by blast
  have none: "map_of regs s = None"
    using notin by (simp add: map_of_eq_None_iff)
  have "RegisterSchemes (p # regs) reg0 = Return reg"
    using run fresh p by (simp add: RegisterScheme_def)
  moreover have "\<forall>x. reg x = (case map_of (p # regs) x of Some g \<Rightarrow> Some g | None \<Rightarrow> reg0 x)"
    using look none p by (auto split: option.splits)
  ultimately show ?case by blast
qed

text \<open>
  C6. Once a call of RegisterScheme with a scheme has returned, any further call with
  that scheme panics. Registering a list of pairwise distinct schemes, one after the
  other from the empty start-up registry, returns, and the registry then maps every
  registered scheme to the constructor it was registered with (and nothing else);
  registering any of them again panics.
\<close>

theorem RegisterScheme_twice_panics_distinct_succeed:
  "(RegisterScheme scheme f reg0 = Return reg1 \<longrightarrow>
      RegisterScheme scheme g reg1 = Panic ''scheme %v is already registered'') \<and>
   (distinct (map fst regs) \<longrightarrow>
      (\<exists>reg. RegisterSchemes regs publicKeys = Return reg \<and>
         dom reg = fst ` set regs \<and>
         (\<forall>(s, c) \<in> set regs.
            reg s = Some c \<and>
            RegisterScheme s g reg = Panic ''scheme %v is already registered'')))"
proof (intro conjI impI)
  assume "RegisterScheme scheme f reg0 = Return reg1"
  then have "reg1 = reg0(scheme \<mapsto> f)"
    by (auto simp: RegisterScheme_def split: option.splits)
  then show "RegisterScheme scheme g reg1 = Panic ''scheme %v is already registered''"
    by (simp add: RegisterScheme_def)
next
  assume d: "distinct (map fst regs)"
  have "\<forall>s \<in> fst ` set regs. publicKeys s = None"
    by (simp add: publicKeys_def)
  from RegisterSchemes_lookup [OF d this] obtain reg where
    run: "RegisterSchemes regs publicKeys = Return reg" and
    look: "\<forall>s. reg s = (case map_of regs s of Some c \<Rightarrow> Some c | None \<Rightarrow> publicKeys s)"
    by blast
  have look': "reg s = map_of regs s" for s
    using look by (simp add: publicKeys_def split: option.splits)
  have "dom reg = fst ` set regs"
    using look' by (simp add: dom_def dom_map_of_conv_image_fst [symmetric])
  moreover have "reg s = Some c \<and> RegisterScheme s g reg = Panic ''scheme %v is already registered''"
    if "(s, c) \<in> set regs" for s c
  proof -
    from that d have "map_of regs s = Some c" by simp
    then show ?thesis by (simp add: look' RegisterScheme_def)
  qed
  ultimately show "\<exists>reg. RegisterSchemes regs publicKeys = Return reg \<and>
         dom reg = fst ` set regs \<and>
         (\<forall>(s, c) \<in> set regs.
            reg s = Some c \<and>
            RegisterScheme s g reg = Panic ''scheme %v is already registered'')"
    using run by blast
qed

theorem RegisterScheme_twice_panics_distinct_succeed_witness:
  "RegisterScheme ECDSA_SHA512 newExampleKey publicKeys =
     Return (publicKeys(ECDSA_SHA512 \<mapsto> newExampleKey)) \<and>
   RegisterScheme ECDSA_SHA512 newExampleKey (publicKeys(ECDSA_SHA512 \<mapsto> newExampleKey)) =
     Panic ''scheme %v is already registered'' \<and>
   distinct (map fst
     [(ECDSA_SHA512, newExampleKey), (ECDSA_DETERMINISTIC_SHA256, newExampleKey),
      (ECDSA_WALLETCONNECT, newExampleKey)]) \<and>
   (\<exists>reg. RegisterSchemes
       [(ECDSA_SHA512, newExampleKey), (ECDSA_DETERMINISTIC_SHA256, newExampleKey),
        (ECDSA_WALLETCONNECT, newExampleKey)] publicKeys = Return reg \<and>
      reg ECDSA_WALLETCONNECT = Some newExampleKey \<and>
      RegisterScheme ECDSA_WALLETCONNECT newExampleKey reg =
        Panic ''scheme %v is already registered'')"
proof -
  let ?c = newExampleKey
  let ?regs = "[(ECDSA_SHA512, ?c), (ECDSA_DETERMINISTIC_SHA256, ?c), (ECDSA_WALLETCONNECT, ?c)]"
  have first: "RegisterScheme ECDSA_SHA512 ?c publicKeys = Return (publicKeys(ECDSA_SHA512 \<mapsto> ?c))"
    by (simp add: RegisterScheme_def publicKeys_def)
  have d: "distinct (map fst ?regs)"
    by (simp add: ECDSA_SHA512_def ECDSA_DETERMINISTIC_SHA256_def ECDSA_WALLETCONNECT_def)
  note inst = RegisterScheme_twice_panics_distinct_succeed
    [of ECDSA_SHA512 ?c publicKeys "publicKeys(ECDSA_SHA512 \<mapsto> ?c)" ?c ?regs]
  from inst first have second:
    "RegisterScheme ECDSA_SHA512 ?c (publicKeys(ECDSA_SHA512 \<mapsto> ?c)) =
       Panic ''scheme %v is already registered''"
    by blast
  from inst d obtain reg where
    run: "RegisterSchemes ?regs publicKeys = Return reg" and
    each: "\<forall>(s, c) \<in> set ?regs. reg s = Some c \<and>
       RegisterScheme s ?c reg = Panic ''scheme %v is already registered''"
    by blast
  from each have "case (ECDSA_WALLETCONNECT, ?c) of
      (s, c) \<Rightarrow> reg s = Some c \<and>
        RegisterScheme s ?c reg = Panic ''scheme %v is already registered''"
    by (rule bspec) simp
  then have last: "reg ECDSA_WALLETCONNECT = Some ?c \<and>
      RegisterScheme ECDSA_WALLETCONNECT ?c reg = Panic ''scheme %v is already registered''"
    by simp
  have third: "\<exists>reg. RegisterSchemes ?regs publicKeys = Return reg \<and>
      reg ECDSA_WALLETCONNECT = Some ?c \<and>
      RegisterScheme ECDSA_WALLETCONNECT ?c reg = Panic ''scheme %v is already registered''"
    by (rule exI [of _ reg]) (rule conjI [OF run last])
  show ?thesis
    by (intro conjI first second d third)
qed

subsection \<open>The message adapter\<close>

lemma serviceMessageBody_Request:
  "t \<noteq> OtherRequest \<Longrightarrow> serviceMessageBody (Request t v) = Return (Body (body v))"
  by (cases t) simp_all

lemma serviceMessageBody_Response:
  "t \<noteq> OtherResponse \<Longrightarrow> serviceMessageBody (Response t v) = Return (Body (body v))"
  by (cases t) simp_all

lemma serviceMessageBody_Return:
  "serviceMessageBody m = Return b \<Longrightarrow>
     (\<exists>t v. m = Request t v \<and> b = Body (body v)) \<or> (\<exists>t v. m = Response t v \<and> b = Body (body v))"
  by (induction m rule: serviceMessageBody.induct) auto

text \<open>
  C8. serviceMessageBody returns the body field of every message whose type is one of
  the listed request or response types. On every other value (a request or response of
  a further type, a value with neither capability, nil) it panics. It never returns
  the nil interface.
\<close>

theorem serviceMessageBody_known_or_panic:
  "(t \<noteq> OtherRequest \<longrightarrow> serviceMessageBody (Request t v) = Return (Body (body v))) \<and>
   (t' \<noteq> OtherResponse \<longrightarrow> serviceMessageBody (Response t' v) = Return (Body (body v))) \<and>
   serviceMessageBody (Request OtherRequest v) = Panic ''unsupported session message %T'' \<and>
   serviceMessageBody (Response OtherResponse v) = Panic ''unsupported session message %T'' \<and>
   serviceMessageBody OtherValue = Panic ''unsupported session message %T'' \<and>
   serviceMessageBody NilMsg = Panic ''unsupported session message %T'' \<and>
   serviceMessageBody m \<noteq> Return NilMarshaler"
proof -
  have "serviceMessageBody m \<noteq> Return NilMarshaler"
    using serviceMessageBody_Return [of m NilMarshaler] by auto
  then show ?thesis
    by (simp add: serviceMessageBody_Request serviceMessageBody_Response)
qed

theorem serviceMessageBody_known_or_panic_witness:
  "ObjectGetRangeHashRequest \<noteq> OtherRequest \<and>
   serviceMessageBody (Request ObjectGetRangeHashRequest exampleFields) = Return (Body (Some [1, 2])) \<and>
   NetmapSnapshotResponse \<noteq> OtherResponse \<and>
   serviceMessageBody (Response NetmapSnapshotResponse exampleFields) = Return (Body (Some [1, 2])) \<and>
   serviceMessageBody (Request OtherRequest exampleFields) = Panic ''unsupported session message %T''"
  using serviceMessageBody_known_or_panic
    [of ObjectGetRangeHashRequest exampleFields NetmapSnapshotResponse NilMsg]
  by (simp add: exampleFields_def)

subsection \<open>Signing\<close>

lemma signServiceMessageParts_fresh:
  "signServiceMessageParts a signer msg bdy meta NilMarshaler
     (VerificationHeader None None None None) setter =
   (case CalculateMarshalled a signer bdy of
      Inl e \<Rightarrow> Return (msg, Some (SignError (Errorf ''body: %w'' (Errorf ''calculate %w'' e))))
    | Inr sb \<Rightarrow>
       (case CalculateMarshalled a signer meta of
          Inl e \<Rightarrow>
            Return (msg, Some (SignError (Errorf ''meta header: %w'' (Errorf ''calculate %w'' e))))
        | Inr sm \<Rightarrow>
           (case CalculateMarshalled a signer NilMarshaler of
              Inl e \<Rightarrow>
                Return (msg, Some (SignError (Errorf ''origin of verification header: %w''
                  (Errorf ''calculate %w'' e))))
            | Inr so \<Rightarrow>
                Return (setter (VerificationHeader (Some sb) (Some sm) (Some so) None), None))))"
  by (simp add: signServiceMessageParts_def signServiceMessagePart_def split: sum.splits)

lemma signServiceMessageParts_relay:
  "signServiceMessageParts a signer msg bdy meta (Verification (Some h))
     (VerificationHeader None None None None) setter =
   (case CalculateMarshalled a signer meta of
      Inl e \<Rightarrow>
        Return (msg, Some (SignError (Errorf ''meta header: %w'' (Errorf ''calculate %w'' e))))
    | Inr sm \<Rightarrow>
       (case CalculateMarshalled a signer (Verification (Some h)) of
          Inl e \<Rightarrow>
            Return (msg, Some (SignError (Errorf ''origin of verification header: %w''
              (Errorf ''calculate %w'' e))))
        | Inr so \<Rightarrow>
            Return (setter (VerificationHeader None (Some sm) (Some so) (Some h)), None)))"
  by (simp add: signServiceMessageParts_def signServiceMessagePart_def split: sum.splits)

lemma signServiceMessage_supported:
  assumes "mk = Request t \<and> t \<noteq> OtherRequest \<or> mk = Response t' \<and> t' \<noteq> OtherResponse"
  shows "signServiceMessage a signer (mk v) =
     signServiceMessageParts a signer (mk v) (Body (body v)) (Meta (metaHeader v))
       (case verificationHeader v of None \<Rightarrow> NilMarshaler | Some h \<Rightarrow> Verification (Some h))
       (VerificationHeader None None None None)
       (\<lambda>h. mk (v\<lparr>verificationHeader := Some h\<rparr>))"
  using assms
  by (auto simp: signServiceMessage_def serviceMessageBody_Request serviceMessageBody_Response)

lemma signServiceMessage_Return_supported:
  assumes "signServiceMessage a signer msg = Return (msg', r)"
  shows "msg = NilMsg \<or> msg = OtherValue \<or>
     (\<exists>t v. msg = Request t v \<and> t \<noteq> OtherRequest) \<or>
     (\<exists>t v. msg = Response t v \<and> t \<noteq> OtherResponse)"
proof (cases msg)
  case (Request t v)
  with assms have "t \<noteq> OtherRequest"
    by (auto simp: signServiceMessage_def)
  with Request show ?thesis by blast
next
  case (Response t v)
  with assms have "t \<noteq> OtherResponse"
    by (auto simp: signServiceMessage_def)
  with Response show ?thesis by blast
qed simp_all

lemma signServiceMessage_error_supported:
  assumes "mk = Request t \<and> t \<noteq> OtherRequest \<or> mk = Response t' \<and> t' \<noteq> OtherResponse"
    and "signServiceMessage a signer (mk v) = Return (msg', Some e)"
  shows "msg' = mk v \<and> (\<exists>c. e = SignError c)"
proof (cases "verificationHeader v")
  case None
  with assms(2) show ?thesis
    unfolding signServiceMessage_supported [OF assms(1)]
    by (auto simp: signServiceMessageParts_fresh split: sum.splits)
next
  case (Some h)
  with assms(2) show ?thesis
    unfolding signServiceMessage_supported [OF assms(1)]
    by (auto simp: signServiceMessageParts_relay split: sum.splits)
qed

lemma signServiceMessage_success_supported:
  assumes "mk = Request t \<and> t \<noteq> OtherRequest \<or> mk = Response t' \<and> t' \<noteq> OtherResponse"
    and "signServiceMessage a signer (mk v) = Return (msg', None)"
  shows "\<exists>sm so. CalculateMarshalled a signer (Meta (metaHeader v)) = Inr sm \<and>
     (case verificationHeader v of
        None \<Rightarrow>
          CalculateMarshalled a signer NilMarshaler = Inr so \<and>
          (\<exists>sb. CalculateMarshalled a signer (Body (body v)) = Inr sb \<and>
             msg' = mk (v\<lparr>verificationHeader :=
               Some (VerificationHeader (Some sb) (Some sm) (Some so) None)\<rparr>))
      | Some h \<Rightarrow>
          CalculateMarshalled a signer (Verification (Some h)) = Inr so \<and>
          msg' = mk (v\<lparr>verificationHeader :=
            Some (VerificationHeader None (Some sm) (Some so) (Some h))\<rparr>))"
proof (cases "verificationHeader v")
  case None
  with assms(2) show ?thesis
    unfolding signServiceMessage_supported [OF assms(1)]
    by (auto simp: signServiceMessageParts_fresh split: sum.splits)
next
  case (Some h)
  with assms(2) show ?thesis
    unfolding signServiceMessage_supported [OF assms(1)]
    by (auto simp: signServiceMessageParts_relay split: sum.splits)
qed

lemma example_sign_fresh:
  "signServiceMessage exampleApi exampleSigner (Request ContainerGetRequest exampleFields) =
     Return (Request ContainerGetRequest (exampleFields\<lparr>verificationHeader := Some exampleHdr1\<rparr>), None)"
  by (simp add: signServiceMessage_def signServiceMessageParts_fresh exampleSigner_calculates
      ReadSignedData_def exampleApi_simps exampleFields_def exampleHdr1_def)

lemma example_sign_again:
  "signServiceMessage exampleApi exampleSigner
     (Request ContainerGetRequest (exampleFields\<lparr>verificationHeader := Some exampleHdr1\<rparr>)) =
   Return (Request ContainerGetRequest (exampleFields\<lparr>verificationHeader := Some exampleHdr2\<rparr>), None)"
  by (simp add: signServiceMessage_def signServiceMessageParts_relay exampleSigner_calculates
      ReadSignedData_def exampleApi_simps exampleFields_def exampleHdr2_def)

text \<open>
  C10. A value that is neither nil, a request nor a response: signServiceMessage
  returns (it does not panic) the sign error around the unsupported-message cause and
  leaves the value as it is; verifyServiceMessage returns the plain unsupported-message
  error.
\<close>

theorem unsupported_value_is_error:
  "signServiceMessage a signer OtherValue =
     Return (OtherValue, Some (SignError (Err ''unsupported session message %T''))) \<and>
   verifyServiceMessage a OtherValue = Return (Some (Err ''unsupported session message %T''))"
  by (simp add: signServiceMessage_def verifyServiceMessage_def)

text \<open>
  C9. When signServiceMessage returns without an error, the message after the call is
  the message before the call with only its verification header replaced: the type, the
  body and the meta header (with its whole origin chain) are the same. A nil message
  stays nil.
\<close>

theorem signServiceMessage_frame:
  assumes "signServiceMessage a signer msg = Return (msg', None)"
  shows "(msg = NilMsg \<and> msg' = NilMsg) \<or>
     (\<exists>t v v' h. msg = Request t v \<and> msg' = Request t v' \<and>
        v' = v\<lparr>verificationHeader := Some h\<rparr> \<and>
        body v' = body v \<and> metaHeader v' = metaHeader v) \<or>
     (\<exists>t v v' h. msg = Response t v \<and> msg' = Response t v' \<and>
        v' = v\<lparr>verificationHeader := Some h\<rparr> \<and>
        body v' = body v \<and> metaHeader v' = metaHeader v)"
proof -
  from signServiceMessage_Return_supported [OF assms]
  consider "msg = NilMsg" | "msg = OtherValue"
    | t v where "msg = Request t v" "t \<noteq> OtherRequest"
    | t v where "msg = Response t v" "t \<noteq> OtherResponse"
    by blast
  then show ?thesis
  proof cases
    case 1
    with assms show ?thesis by (simp add: signServiceMessage_def)
  next
    case 2
    with assms show ?thesis by (simp add: signServiceMessage_def)
  next
    case 3
    then have k: "Request t = Request t \<and> t \<noteq> OtherRequest \<or>
        Request t = Response AccountingBalanceResponse \<and>
        AccountingBalanceResponse \<noteq> OtherResponse"
      by simp
    from signServiceMessage_success_supported [OF k] assms 3
    obtain h where "msg' = Request t (v\<lparr>verificationHeader := Some h\<rparr>)"
      by (fastforce split: option.splits)
    with 3 show ?thesis by auto
  next
    case 4
    then have k: "Response t = Request AccountingBalanceRequest \<and>
        AccountingBalanceRequest \<noteq> OtherRequest \<or>
        Response t = Response t \<and> t \<noteq> OtherResponse"
      by simp
    from signServiceMessage_success_supported [OF k] assms 4
    obtain h where "msg' = Response t (v\<lparr>verificationHeader := Some h\<rparr>)"
      by (fastforce split: option.splits)
    with 4 show ?thesis by auto
  qed
qed

theorem signServiceMessage_frame_witness:
  "signServiceMessage exampleApi exampleSigner (Request ContainerGetRequest exampleFields) =
     Return (Request ContainerGetRequest (exampleFields\<lparr>verificationHeader := Some exampleHdr1\<rparr>), None) \<and>
   body (exampleFields\<lparr>verificationHeader := Some exampleHdr1\<rparr>) = body exampleFields \<and>
   metaHeader (exampleFields\<lparr>verificationHeader := Some exampleHdr1\<rparr>) = metaHeader exampleFields"
  using signServiceMessage_frame [OF example_sign_fresh] example_sign_fresh
  by simp

text \<open>
  C5. Signing a message of a supported type is all-or-nothing. The body signature is
  computed when the message has no verification header, then the meta header
  signature, then the origin signature. When the body computation fails, the call
  returns the sign error with the context \<open>body\<close>; when the body step passes and the
  meta header computation fails, with the context \<open>meta header\<close>; when both pass and
  the origin computation fails, with the context \<open>origin of verification header\<close>.
  Whenever the call returns an error, the error is a sign error and the message is as
  it was before the call, its verification header included.
\<close>

theorem signServiceMessage_all_or_nothing:
  assumes "mk = Request t \<and> t \<noteq> OtherRequest \<or> mk = Response t' \<and> t' \<noteq> OtherResponse"
  shows "(verificationHeader v = None \<and> CalculateMarshalled a signer (Body (body v)) = Inl e \<longrightarrow>
      signServiceMessage a signer (mk v) =
        Return (mk v, Some (SignError (Errorf ''body: %w'' (Errorf ''calculate %w'' e))))) \<and>
    ((verificationHeader v = None \<longrightarrow>
        (\<exists>s. CalculateMarshalled a signer (Body (body v)) = Inr s)) \<and>
     CalculateMarshalled a signer (Meta (metaHeader v)) = Inl e \<longrightarrow>
      signServiceMessage a signer (mk v) =
        Return (mk v, Some (SignError (Errorf ''meta header: %w'' (Errorf ''calculate %w'' e))))) \<and>
    ((verificationHeader v = None \<longrightarrow>
        (\<exists>s. CalculateMarshalled a signer (Body (body v)) = Inr s)) \<and>
     (\<exists>s. CalculateMarshalled a signer (Meta (metaHeader v)) = Inr s) \<and>
     CalculateMarshalled a signer
       (case verificationHeader v of None \<Rightarrow> NilMarshaler | Some h \<Rightarrow> Verification (Some h)) =
       Inl e \<longrightarrow>
      signServiceMessage a signer (mk v) =
        Return (mk v, Some (SignError (Errorf ''origin of verification header: %w''
          (Errorf ''calculate %w'' e))))) \<and>
    (signServiceMessage a signer (mk v) = Return (msg', Some e') \<longrightarrow>
      msg' = mk v \<and> (\<exists>c. e' = SignError c))"
proof (intro conjI impI)
  assume "verificationHeader v = None \<and> CalculateMarshalled a signer (Body (body v)) = Inl e"
  then show "signServiceMessage a signer (mk v) =
      Return (mk v, Some (SignError (Errorf ''body: %w'' (Errorf ''calculate %w'' e))))"
    by (simp add: signServiceMessage_supported [OF assms] signServiceMessageParts_fresh)
next
  assume "(verificationHeader v = None \<longrightarrow>
        (\<exists>s. CalculateMarshalled a signer (Body (body v)) = Inr s)) \<and>
     CalculateMarshalled a signer (Meta (metaHeader v)) = Inl e"
  then show "signServiceMessage a signer (mk v) =
      Return (mk v, Some (SignError (Errorf ''meta header: %w'' (Errorf ''calculate %w'' e))))"
    by (cases "verificationHeader v")
      (auto simp: signServiceMessage_supported [OF assms] signServiceMessageParts_fresh
        signServiceMessageParts_relay)
next
  assume "(verificationHeader v = None \<longrightarrow>
        (\<exists>s. CalculateMarshalled a signer (Body (body v)) = Inr s)) \<and>
     (\<exists>s. CalculateMarshalled a signer (Meta (metaHeader v)) = Inr s) \<and>
     CalculateMarshalled a signer
       (case verificationHeader v of None \<Rightarrow> NilMarshaler | Some h \<Rightarrow> Verification (Some h)) =
       Inl e"
  then show "signServiceMessage a signer (mk v) =
      Return (mk v, Some (SignError (Errorf ''origin of verification header: %w''
        (Errorf ''calculate %w'' e))))"
    by (cases "verificationHeader v")
      (auto simp: signServiceMessage_supported [OF assms] signServiceMessageParts_fresh
        signServiceMessageParts_relay)
next
  assume "signServiceMessage a signer (mk v) = Return (msg', Some e')"
  from signServiceMessage_error_supported [OF assms this]
  show "msg' = mk v" and "\<exists>c. e' = SignError c"
    by simp_all
qed

lemma pickySigner_calculates:
  "CalculateMarshalled exampleApi (pickySigner bad) part =
     (if ReadSignedData exampleApi part = bad then Inl (Err ''refused'')
      else Inr (exampleSig (ReadSignedData exampleApi part)))"
  by (simp add: CalculateMarshalled_def ReadSignedData_def pickySigner_def exampleKey_def
      exampleSig_def)

theorem signServiceMessage_all_or_nothing_witness:
  "verificationHeader exampleFields = None \<and>
   CalculateMarshalled exampleApi (pickySigner [1, 2]) (Body (body exampleFields)) =
     Inl (Err ''refused'') \<and>
   signServiceMessage exampleApi (pickySigner [1, 2]) (Request ContainerGetRequest exampleFields) =
     Return (Request ContainerGetRequest exampleFields,
       Some (SignError (Errorf ''body: %w'' (Errorf ''calculate %w'' (Err ''refused''))))) \<and>
   signServiceMessage exampleApi (pickySigner [7]) (Request ContainerGetRequest exampleFields) =
     Return (Request ContainerGetRequest exampleFields,
       Some (SignError (Errorf ''meta header: %w'' (Errorf ''calculate %w'' (Err ''refused''))))) \<and>
   signServiceMessage exampleApi (pickySigner []) (Response ContainerGetResponse exampleFields) =
     Return (Response ContainerGetResponse exampleFields,
       Some (SignError (Errorf ''origin of verification header: %w''
         (Errorf ''calculate %w'' (Err ''refused'')))))"
proof -
  have req: "Request ContainerGetRequest = Request ContainerGetRequest \<and>
      ContainerGetRequest \<noteq> OtherRequest \<or>
      Request ContainerGetRequest = Response ContainerGetResponse \<and>
      ContainerGetResponse \<noteq> OtherResponse"
    by simp
  have resp: "Response ContainerGetResponse = Request ContainerGetRequest \<and>
      ContainerGetRequest \<noteq> OtherRequest \<or>
      Response ContainerGetResponse = Response ContainerGetResponse \<and>
      ContainerGetResponse \<noteq> OtherResponse"
    by simp
  have v: "verificationHeader exampleFields = None"
    "ReadSignedData exampleApi (Body (body exampleFields)) = [1, 2]"
    "ReadSignedData exampleApi (Meta (metaHeader exampleFields)) = [7]"
    "ReadSignedData exampleApi NilMarshaler = []"
    by (simp_all add: exampleFields_def ReadSignedData_def exampleApi_simps)
  show ?thesis
    using signServiceMessage_all_or_nothing
        [OF req, of exampleFields exampleApi "pickySigner [1, 2]" "Err ''refused''"]
      signServiceMessage_all_or_nothing
        [OF req, of exampleFields exampleApi "pickySigner [7]" "Err ''refused''"]
      signServiceMessage_all_or_nothing
        [OF resp, of exampleFields exampleApi "pickySigner []" "Err ''refused''"]
    by (simp add: pickySigner_calculates v)
qed

text \<open>
  C3 as stated fails: the request signed once carries a verification header whose
  origin is nil, and signing it again leaves the body signature of the new header nil.
\<close>

theorem body_signature_resigned_counterexample:
  "verificationHeader (exampleFields\<lparr>verificationHeader := Some exampleHdr1\<rparr>) = Some exampleHdr1 \<and>
   origin exampleHdr1 = None \<and>
   signServiceMessage exampleApi exampleSigner
     (Request ContainerGetRequest (exampleFields\<lparr>verificationHeader := Some exampleHdr1\<rparr>)) =
   Return (Request ContainerGetRequest (exampleFields\<lparr>verificationHeader := Some exampleHdr2\<rparr>), None) \<and>
   bodySig exampleHdr2 = None"
  using example_sign_again by (simp add: exampleHdr1_def exampleHdr2_def)

text \<open>
  C3, amended. When signing a message of a supported type succeeds, the body signature
  of the new header is filled exactly when the message carried no verification header
  at all: without one it is the signature computed of the body; with one, whether or
  not that header has an origin of its own, it is left nil.
\<close>

theorem body_signature_iff_no_header:
  assumes "mk = Request t \<and> t \<noteq> OtherRequest \<or> mk = Response t' \<and> t' \<noteq> OtherResponse"
    and "signServiceMessage a signer (mk v) = Return (msg', None)"
  shows "\<exists>h'. msg' = mk (v\<lparr>verificationHeader := Some h'\<rparr>) \<and>
     (bodySig h' \<noteq> None \<longleftrightarrow> verificationHeader v = None) \<and>
     (verificationHeader v = None \<longrightarrow>
        (\<exists>s. CalculateMarshalled a signer (Body (body v)) = Inr s \<and> bodySig h' = Some s)) \<and>
     (verificationHeader v \<noteq> None \<longrightarrow> bodySig h' = None)"
  using signServiceMessage_success_supported [OF assms]
  by (cases "verificationHeader v") auto

theorem body_signature_iff_no_header_witness:
  "signServiceMessage exampleApi exampleSigner (Request ContainerGetRequest exampleFields) =
     Return (Request ContainerGetRequest (exampleFields\<lparr>verificationHeader := Some exampleHdr1\<rparr>), None) \<and>
   verificationHeader exampleFields = None \<and>
   bodySig exampleHdr1 = Some (exampleSig [1, 2]) \<and>
   CalculateMarshalled exampleApi exampleSigner (Body (body exampleFields)) = Inr (exampleSig [1, 2]) \<and>
   signServiceMessage exampleApi exampleSigner
     (Request ContainerGetRequest (exampleFields\<lparr>verificationHeader := Some exampleHdr1\<rparr>)) =
     Return (Request ContainerGetRequest (exampleFields\<lparr>verificationHeader := Some exampleHdr2\<rparr>), None) \<and>
   verificationHeader (exampleFields\<lparr>verificationHeader := Some exampleHdr1\<rparr>) \<noteq> None \<and>
   bodySig exampleHdr2 = None"
proof -
  have req: "Request ContainerGetRequest = Request ContainerGetRequest \<and>
      ContainerGetRequest \<noteq> OtherRequest \<or>
      Request ContainerGetRequest = Response ContainerGetResponse \<and>
      ContainerGetResponse \<noteq> OtherResponse"
    by simp
  have v: "verificationHeader exampleFields = None"
    by (simp add: exampleFields_def)
  from body_signature_iff_no_header [OF req example_sign_fresh] v
  obtain h' s where
    "exampleFields\<lparr>verificationHeader := Some exampleHdr1\<rparr> =
       exampleFields\<lparr>verificationHeader := Some h'\<rparr>"
    "CalculateMarshalled exampleApi exampleSigner (Body (body exampleFields)) = Inr s"
    "bodySig h' = Some s"
    by auto
  moreover from this(1) have "h' = exampleHdr1"
    by (simp add: exampleFields_def)
  moreover have "bodySig exampleHdr1 = Some (exampleSig [1, 2])"
    by (simp add: exampleHdr1_def)
  ultimately have fresh:
    "CalculateMarshalled exampleApi exampleSigner (Body (body exampleFields)) = Inr (exampleSig [1, 2])"
    "bodySig exampleHdr1 = Some (exampleSig [1, 2])"
    by simp_all
  from body_signature_iff_no_header [OF req example_sign_again]
  obtain h2 where
    "exampleFields\<lparr>verificationHeader := Some exampleHdr2\<rparr> =
       exampleFields\<lparr>verificationHeader := Some exampleHdr1, verificationHeader := Some h2\<rparr>"
    "bodySig h2 = None"
    by auto
  moreover from this(1) have "h2 = exampleHdr2"
    by (simp add: exampleFields_def)
  ultimately have relay: "bodySig exampleHdr2 = None"
    by simp
  show ?thesis
    using example_sign_fresh example_sign_again v fresh relay by simp
qed

text \<open>
  C4 as stated fails: for a request with a body, a nil meta header and no verification
  header, the origin signature of the new header is not empty; it is the signer's
  signature of zero-length data.
\<close>

theorem origin_signature_fresh_counterexample:
  "signServiceMessage exampleApi exampleSigner
     (Request AccountingBalanceRequest
        \<lparr>body = Some [1, 2], metaHeader = None, verificationHeader = None\<rparr>) =
   Return (Request AccountingBalanceRequest
        \<lparr>body = Some [1, 2], metaHeader = None,
         verificationHeader = Some (VerificationHeader (Some (exampleSig [1, 2]))
           (Some (exampleSig [])) (Some (exampleSig [])) None)\<rparr>, None) \<and>
   originSig (VerificationHeader (Some (exampleSig [1, 2]))
           (Some (exampleSig [])) (Some (exampleSig [])) None) \<noteq> None \<and>
   sigSign (exampleSig []) = [9]"
  by (simp add: signServiceMessage_def signServiceMessageParts_fresh exampleSigner_calculates
      ReadSignedData_def exampleApi_simps exampleSig_def)

text \<open>
  C4, amended. For every request of a supported type with body B, any meta header and
  no verification header, and every signer whose \<open>Sign\<close> succeeds on the three
  payloads, signServiceMessage installs a verification header whose body signature is
  the signer's signature of the serialized body, whose meta signature is its signature
  of the serialized meta header, whose origin signature is its signature of zero-length
  data (not empty), and whose origin link is nil. Each signature carries the encoding
  of the signer's public key and the signer's scheme.
\<close>

theorem sign_fresh_request_header:
  assumes "t \<noteq> OtherRequest"
    and "verificationHeader v = None"
    and "Sign signer (StableMarshal a (Body (body v))) = Inr sb"
    and "Sign signer (StableMarshal a (Meta (metaHeader v))) = Inr sm"
    and "Sign signer [] = Inr so"
  shows "signServiceMessage a signer (Request t v) =
     Return (Request t (v\<lparr>verificationHeader := Some (VerificationHeader
       (Some \<lparr>sigKey = Encode (Public signer), sigSign = sb, sigScheme = Scheme signer\<rparr>)
       (Some \<lparr>sigKey = Encode (Public signer), sigSign = sm, sigScheme = Scheme signer\<rparr>)
       (Some \<lparr>sigKey = Encode (Public signer), sigSign = so, sigScheme = Scheme signer\<rparr>)
       None)\<rparr>), None)"
proof -
  have k: "Request t = Request t \<and> t \<noteq> OtherRequest \<or>
      Request t = Response AccountingBalanceResponse \<and>
      AccountingBalanceResponse \<noteq> OtherResponse"
    using assms(1) by simp
  show ?thesis
    using assms(2-5)
    by (simp add: signServiceMessage_supported [OF k] signServiceMessageParts_fresh
        CalculateMarshalled_def)
qed

theorem sign_fresh_request_header_witness:
  "AccountingBalanceRequest \<noteq> OtherRequest \<and>
   Sign exampleSigner [1, 2] = Inr [9, 1, 2] \<and>
   Sign exampleSigner [] = Inr [9] \<and>
   signServiceMessage exampleApi exampleSigner
     (Request AccountingBalanceRequest
        \<lparr>body = Some [1, 2], metaHeader = None, verificationHeader = None\<rparr>) =
   Return (Request AccountingBalanceRequest
        \<lparr>body = Some [1, 2], metaHeader = None,
         verificationHeader = Some (VerificationHeader
           (Some \<lparr>sigKey = [9], sigSign = [9, 1, 2], sigScheme = ECDSA_DETERMINISTIC_SHA256\<rparr>)
           (Some \<lparr>sigKey = [9], sigSign = [9], sigScheme = ECDSA_DETERMINISTIC_SHA256\<rparr>)
           (Some \<lparr>sigKey = [9], sigSign = [9], sigScheme = ECDSA_DETERMINISTIC_SHA256\<rparr>)
           None)\<rparr>, None)"
  using sign_fresh_request_header [of AccountingBalanceRequest
      "\<lparr>body = Some [1, 2], metaHeader = None, verificationHeader = None\<rparr>"
      exampleSigner exampleApi "[9, 1, 2]" "[9]" "[9]"]
  by (simp add: exampleSigner_simps exampleApi_simps)

subsection \<open>Verification\<close>

lemma verifyServiceMessage_supported:
  assumes "mk = Request t \<and> t \<noteq> OtherRequest \<or> mk = Response t' \<and> t' \<noteq> OtherResponse"
  shows "verifyServiceMessage a (mk v) =
     Return (verifyMatryoshkaLevel a (Body (body v)) (metaHeader v) (verificationHeader v))"
  using assms
  by (auto simp: verifyServiceMessage_def serviceMessageBody_Request serviceMessageBody_Response)

lemma verifyMatryoshkaLevel_innermost:
  assumes "getOrigin verify = None"
  shows "verifyMatryoshkaLevel a bdy meta verify =
     (case verifyServiceMessagePart a (Meta meta) (GetMetaSignature verify) of
        Some e \<Rightarrow> Some (Errorf ''could not verify meta header: %w'' e)
      | None \<Rightarrow>
          (case verifyServiceMessagePart a NilMarshaler (GetOriginSignature verify) of
             Some e \<Rightarrow> Some (Errorf ''could not verify origin of verification header: %w'' e)
           | None \<Rightarrow>
               (case verifyServiceMessagePart a bdy (GetBodySignature verify) of
                  Some e \<Rightarrow> Some (Errorf ''could not verify body: %w'' e)
                | None \<Rightarrow> None)))"
  using assms by (subst verifyMatryoshkaLevel.simps) (simp split: option.splits)

lemma verifyMatryoshkaLevel_upper:
  assumes "getOrigin verify = Some org"
  shows "verifyMatryoshkaLevel a bdy meta verify =
     (case verifyServiceMessagePart a (Meta meta) (GetMetaSignature verify) of
        Some e \<Rightarrow> Some (Errorf ''could not verify meta header: %w'' e)
      | None \<Rightarrow>
          (case verifyServiceMessagePart a (Verification (Some org)) (GetOriginSignature verify) of
             Some e \<Rightarrow> Some (Errorf ''could not verify origin of verification header: %w'' e)
           | None \<Rightarrow>
               (if GetBodySignature verify \<noteq> None
                then Some (Err ''body signature at the matryoshka upper level'')
                else verifyMatryoshkaLevel a bdy (getOriginMeta meta) (Some org))))"
  using assms by (subst verifyMatryoshkaLevel.simps) (simp split: option.splits)

lemma example_parts:
  "verifyServiceMessagePart exampleApi part (Some (exampleSig d)) =
     (if d = ReadSignedData exampleApi part then None else Some (Err ''invalid signature''))"
  "ReadSignedData exampleApi NilMarshaler = []"
  "ReadSignedData exampleApi (Body (Some b)) = b"
  "ReadSignedData exampleApi (Meta None) = []"
  "ReadSignedData exampleApi (Meta (Some m)) = exampleMarshalMeta m"
  "ReadSignedData exampleApi (Verification (Some h)) = exampleMarshalVerify h"
  by (simp_all add: verifyServiceMessagePart_def ReadSignedData_def exampleApi_simps
      exampleVerifyData_exampleSig)

lemma example_verify_hdr1:
  "verifyMatryoshkaLevel exampleApi (Body (Some [1, 2])) (Some (MetaHeader [7] None))
     (Some exampleHdr1) = None"
proof -
  have "getOrigin (Some exampleHdr1) = None"
    by (simp add: getOrigin_def exampleHdr1_def)
  then show ?thesis
    unfolding verifyMatryoshkaLevel_innermost [OF \<open>getOrigin (Some exampleHdr1) = None\<close>]
    by (simp add: example_parts GetMetaSignature_def GetOriginSignature_def
        GetBodySignature_def exampleHdr1_def)
qed

text \<open>
  C2. For every message of a supported type whose outermost verification header has
  an origin and a body signature, and whose meta signature and origin signature pass
  the check at that level, verifyServiceMessage returns the structural error, whatever
  the body signature is.
\<close>

theorem body_signature_at_upper_level:
  assumes "mk = Request t \<and> t \<noteq> OtherRequest \<or> mk = Response t' \<and> t' \<noteq> OtherResponse"
    and "verificationHeader v = Some h"
    and "origin h = Some org"
    and "bodySig h \<noteq> None"
    and "verifyData a (StableMarshal a (Meta (metaHeader v))) (metaSig h) = None"
    and "verifyData a (marshalVerify a org) (originSig h) = None"
  shows "verifyServiceMessage a (mk v) =
     Return (Some (Err ''body signature at the matryoshka upper level''))"
proof -
  have o: "getOrigin (Some h) = Some org"
    using assms(3) by (simp add: getOrigin_def)
  have "verifyMatryoshkaLevel a (Body (body v)) (metaHeader v) (Some h) =
      Some (Err ''body signature at the matryoshka upper level'')"
    using assms(4-6)
    by (simp add: verifyMatryoshkaLevel_upper [OF o] verifyServiceMessagePart_def
        ReadSignedData_def GetMetaSignature_def GetOriginSignature_def GetBodySignature_def)
  then show ?thesis
    using assms(2) by (simp add: verifyServiceMessage_supported [OF assms(1)])
qed

theorem body_signature_at_upper_level_witness:
  "origin upperBodyHdr = Some exampleHdr1 \<and>
   bodySig upperBodyHdr = Some (exampleSig [1, 2]) \<and>
   verifyData exampleApi (StableMarshal exampleApi (Body (body exampleFields)))
     (bodySig upperBodyHdr) = None \<and>
   verifyData exampleApi (StableMarshal exampleApi (Meta (metaHeader exampleFields)))
     (metaSig upperBodyHdr) = None \<and>
   verifyData exampleApi (marshalVerify exampleApi exampleHdr1) (originSig upperBodyHdr) = None \<and>
   verifyServiceMessage exampleApi
     (Response ObjectHeadResponse (exampleFields\<lparr>verificationHeader := Some upperBodyHdr\<rparr>)) =
     Return (Some (Err ''body signature at the matryoshka upper level''))"
proof -
  have resp: "Response ObjectHeadResponse = Request ObjectHeadRequest \<and>
      ObjectHeadRequest \<noteq> OtherRequest \<or>
      Response ObjectHeadResponse = Response ObjectHeadResponse \<and>
      ObjectHeadResponse \<noteq> OtherResponse"
    by simp
  have facts: "origin upperBodyHdr = Some exampleHdr1"
    "bodySig upperBodyHdr = Some (exampleSig [1, 2])"
    "verifyData exampleApi (StableMarshal exampleApi (Body (body exampleFields)))
       (bodySig upperBodyHdr) = None"
    "verifyData exampleApi (StableMarshal exampleApi (Meta (metaHeader exampleFields)))
       (metaSig upperBodyHdr) = None"
    "verifyData exampleApi (marshalVerify exampleApi exampleHdr1) (originSig upperBodyHdr) = None"
    by (simp_all add: upperBodyHdr_def exampleFields_def exampleApi_simps
        exampleVerifyData_exampleSig)
  from facts
    body_signature_at_upper_level [OF resp, of
      "exampleFields\<lparr>verificationHeader := Some upperBodyHdr\<rparr>" upperBodyHdr exampleHdr1
      exampleApi]
  show ?thesis
    by (simp add: exampleFields_def)
qed

text \<open>
  C7 as stated fails: at a level with no origin whose origin signature is not valid
  for zero-length data, the error is the one of the meta header when the meta
  signature does not pass either, because that check comes first.
\<close>

theorem origin_check_after_meta_counterexample:
  "getOrigin (Some badMetaHdr) = None \<and>
   GetOriginSignature (Some badMetaHdr) = Some (exampleSig [5]) \<and>
   verifyData exampleApi [] (Some (exampleSig [5])) = Some (Err ''invalid signature'') \<and>
   verifyMatryoshkaLevel exampleApi (Body (Some [1, 2])) (Some (MetaHeader [7] None))
     (Some badMetaHdr) =
     Some (Errorf ''could not verify meta header: %w'' (Err ''invalid signature''))"
proof -
  have o: "getOrigin (Some badMetaHdr) = None"
    by (simp add: getOrigin_def badMetaHdr_def)
  show ?thesis
    unfolding verifyMatryoshkaLevel_innermost [OF o]
    by (simp add: example_parts GetMetaSignature_def GetOriginSignature_def getOrigin_def
        exampleApi_simps exampleVerifyData_exampleSig badMetaHdr_def)
qed

text \<open>
  C7, amended. At every verification level whose meta signature passes its check, the
  origin signature is checked even when the level has no origin: it is checked against
  zero-length data, and when that check fails the level fails with the error of the
  origin of the verification header around the cause. When the meta signature does not
  pass, the level fails before that with the error of the meta header.
\<close>

theorem origin_check_without_origin:
  assumes "getOrigin verify = None"
  shows "(verifyServiceMessagePart a (Meta meta) (GetMetaSignature verify) = None \<and>
      verifyData a [] (GetOriginSignature verify) = Some e \<longrightarrow>
      verifyMatryoshkaLevel a bdy meta verify =
        Some (Errorf ''could not verify origin of verification header: %w'' e)) \<and>
    (verifyServiceMessagePart a (Meta meta) (GetMetaSignature verify) = Some e \<longrightarrow>
      verifyMatryoshkaLevel a bdy meta verify =
        Some (Errorf ''could not verify meta header: %w'' e))"
  by (simp add: verifyMatryoshkaLevel_innermost [OF assms] verifyServiceMessagePart_def
      ReadSignedData_def)

theorem origin_check_without_origin_witness:
  "getOrigin (Some badOriginHdr) = None \<and>
   verifyServiceMessagePart exampleApi (Meta (Some (MetaHeader [7] None)))
     (GetMetaSignature (Some badOriginHdr)) = None \<and>
   verifyData exampleApi [] (GetOriginSignature (Some badOriginHdr)) =
     Some (Err ''invalid signature'') \<and>
   verifyMatryoshkaLevel exampleApi (Body (Some [1, 2])) (Some (MetaHeader [7] None))
     (Some badOriginHdr) =
     Some (Errorf ''could not verify origin of verification header: %w''
       (Err ''invalid signature'')) \<and>
   getOrigin (Some badMetaHdr) = None \<and>
   verifyServiceMessagePart exampleApi (Meta (Some (MetaHeader [7] None)))
     (GetMetaSignature (Some badMetaHdr)) = Some (Err ''invalid signature'') \<and>
   verifyMatryoshkaLevel exampleApi (Body (Some [1, 2])) (Some (MetaHeader [7] None))
     (Some badMetaHdr) =
     Some (Errorf ''could not verify meta header: %w'' (Err ''invalid signature''))"
proof -
  have o: "getOrigin (Some badOriginHdr) = None"
    by (simp add: getOrigin_def badOriginHdr_def)
  have m: "verifyServiceMessagePart exampleApi (Meta (Some (MetaHeader [7] None)))
      (GetMetaSignature (Some badOriginHdr)) = None"
    by (simp add: example_parts GetMetaSignature_def badOriginHdr_def)
  have g: "verifyData exampleApi [] (GetOriginSignature (Some badOriginHdr)) =
      Some (Err ''invalid signature'')"
    by (simp add: GetOriginSignature_def badOriginHdr_def exampleApi_simps
        exampleVerifyData_exampleSig)
  have o': "getOrigin (Some badMetaHdr) = None"
    by (simp add: getOrigin_def badMetaHdr_def)
  have m': "verifyServiceMessagePart exampleApi (Meta (Some (MetaHeader [7] None)))
      (GetMetaSignature (Some badMetaHdr)) = Some (Err ''invalid signature'')"
    by (simp add: example_parts GetMetaSignature_def badMetaHdr_def)
  from origin_check_without_origin [OF o, of exampleApi "Some (MetaHeader [7] None)"
      "Err ''invalid signature''" "Body (Some [1, 2])"]
    origin_check_without_origin [OF o', of exampleApi "Some (MetaHeader [7] None)"
      "Err ''invalid signature''" "Body (Some [1, 2])"]
    o m g o' m'
  show ?thesis by simp
qed

subsection \<open>Signing, then verification\<close>

lemma verify_calculated:
  assumes "\<forall>d s. Sign signer d = Inr s \<longrightarrow>
      verifyData a d
        (Some \<lparr>sigKey = Encode (Public signer), sigSign = s, sigScheme = Scheme signer\<rparr>) = None"
    and "CalculateMarshalled a signer part = Inr sig"
  shows "verifyServiceMessagePart a part (Some sig) = None"
proof -
  let ?d = "case part of NilMarshaler \<Rightarrow> [] | _ \<Rightarrow> StableMarshal a part"
  from assms(2) obtain s where s: "Sign signer ?d = Inr s"
    and sig: "sig = \<lparr>sigKey = Encode (Public signer), sigSign = s, sigScheme = Scheme signer\<rparr>"
    by (auto simp: CalculateMarshalled_def split: sum.splits)
  from assms(1) s have "verifyData a ?d (Some sig) = None"
    unfolding sig by blast
  then show ?thesis
    by (simp add: verifyServiceMessagePart_def ReadSignedData_def)
qed

lemma exampleSigner_valid:
  "\<forall>d s. Sign exampleSigner d = Inr s \<longrightarrow>
      verifyData exampleApi d
        (Some \<lparr>sigKey = Encode (Public exampleSigner), sigSign = s,
               sigScheme = Scheme exampleSigner\<rparr>) = None"
  by (simp add: exampleSigner_simps exampleApi_simps exampleVerifyData_def)

lemma example_verify_once:
  "verifyServiceMessage exampleApi
     (Request ContainerGetRequest (exampleFields\<lparr>verificationHeader := Some exampleHdr1\<rparr>)) =
   Return None"
  using example_verify_hdr1
  by (simp add: verifyServiceMessage_def exampleFields_def)

text \<open>
  C1 as stated fails: \<open>exampleSigner\<close> signs a request that has no verification
  header, and the signed request passes verification; signing the signed request once
  more, with its meta header as it is, succeeds too, and the result does not pass:
  the inner header's meta signature is checked against the origin of the meta header,
  which is nil.
\<close>

theorem sign_twice_verify_counterexample:
  "signServiceMessage exampleApi exampleSigner (Request ContainerGetRequest exampleFields) =
     Return (Request ContainerGetRequest (exampleFields\<lparr>verificationHeader := Some exampleHdr1\<rparr>), None) \<and>
   verifyServiceMessage exampleApi
     (Request ContainerGetRequest (exampleFields\<lparr>verificationHeader := Some exampleHdr1\<rparr>)) =
     Return None \<and>
   signServiceMessage exampleApi exampleSigner
     (Request ContainerGetRequest (exampleFields\<lparr>verificationHeader := Some exampleHdr1\<rparr>)) =
     Return (Request ContainerGetRequest (exampleFields\<lparr>verificationHeader := Some exampleHdr2\<rparr>), None) \<and>
   verifyServiceMessage exampleApi
     (Request ContainerGetRequest (exampleFields\<lparr>verificationHeader := Some exampleHdr2\<rparr>)) =
     Return (Some (Errorf ''could not verify meta header: %w'' (Err ''invalid signature'')))"
proof -
  have o2: "getOrigin (Some exampleHdr2) = Some exampleHdr1"
    by (simp add: getOrigin_def exampleHdr2_def)
  have o1: "getOrigin (Some exampleHdr1) = None"
    by (simp add: getOrigin_def exampleHdr1_def)
  have inner: "verifyMatryoshkaLevel exampleApi (Body (Some [1, 2])) None (Some exampleHdr1) =
      Some (Errorf ''could not verify meta header: %w'' (Err ''invalid signature''))"
    unfolding verifyMatryoshkaLevel_innermost [OF o1]
    by (simp add: example_parts GetMetaSignature_def exampleHdr1_def)
  have outer: "verifyMatryoshkaLevel exampleApi (Body (Some [1, 2])) (Some (MetaHeader [7] None))
      (Some exampleHdr2) =
      verifyMatryoshkaLevel exampleApi (Body (Some [1, 2])) None (Some exampleHdr1)"
    unfolding verifyMatryoshkaLevel_upper [OF o2]
    by (simp add: example_parts GetMetaSignature_def GetOriginSignature_def
        GetBodySignature_def getOriginMeta_def exampleHdr2_def)
  have "verifyServiceMessage exampleApi
      (Request ContainerGetRequest (exampleFields\<lparr>verificationHeader := Some exampleHdr2\<rparr>)) =
      Return (Some (Errorf ''could not verify meta header: %w'' (Err ''invalid signature'')))"
    using outer inner by (simp add: verifyServiceMessage_def exampleFields_def)
  then show ?thesis
    using example_sign_fresh example_sign_again example_verify_once by simp
qed

text \<open>
  C1, amended. Let the signer be valid for the check: every signature that its \<open>Sign\<close>
  returns for some data, packed with its public key and scheme, passes the check
  against that data. Then for every message on which signServiceMessage succeeds,
  verifyServiceMessage of the signed message returns no error, provided that the
  message carried no verification header before, or (the relay case) that the header
  it carried passes verification against the body and the origin of the message's
  meta header.
\<close>

theorem sign_then_verify:
  assumes valid: "\<forall>d s. Sign signer d = Inr s \<longrightarrow>
      verifyData a d
        (Some \<lparr>sigKey = Encode (Public signer), sigSign = s, sigScheme = Scheme signer\<rparr>) = None"
    and sign: "signServiceMessage a signer msg = Return (msg', None)"
    and prior: "\<forall>v h. ((\<exists>t. msg = Request t v) \<or> (\<exists>t. msg = Response t v)) \<and>
        verificationHeader v = Some h \<longrightarrow>
      verifyMatryoshkaLevel a (Body (body v)) (getOriginMeta (metaHeader v)) (Some h) = None"
  shows "verifyServiceMessage a msg' = Return None"
proof -
  have supported: "verifyServiceMessage a msg' = Return None"
    if mk: "mk = Request t \<and> t \<noteq> OtherRequest \<or> mk = Response t' \<and> t' \<noteq> OtherResponse"
      and msg: "msg = mk v" for mk t t' v
  proof -
    from mk msg have shape: "(\<exists>t. msg = Request t v) \<or> (\<exists>t. msg = Response t v)"
      by auto
    from signServiceMessage_success_supported [OF mk sign [unfolded msg]]
    obtain sm so where
      sm: "CalculateMarshalled a signer (Meta (metaHeader v)) = Inr sm" and
      rest: "case verificationHeader v of
          None \<Rightarrow>
            CalculateMarshalled a signer NilMarshaler = Inr so \<and>
            (\<exists>sb. CalculateMarshalled a signer (Body (body v)) = Inr sb \<and>
               msg' = mk (v\<lparr>verificationHeader :=
                 Some (VerificationHeader (Some sb) (Some sm) (Some so) None)\<rparr>))
        | Some h \<Rightarrow>
            CalculateMarshalled a signer (Verification (Some h)) = Inr so \<and>
            msg' = mk (v\<lparr>verificationHeader :=
              Some (VerificationHeader None (Some sm) (Some so) (Some h))\<rparr>)"
      by blast
    note vm = verify_calculated [OF valid sm]
    show ?thesis
    proof (cases "verificationHeader v")
      case None
      with rest obtain sb where
        so: "CalculateMarshalled a signer NilMarshaler = Inr so" and
        sb: "CalculateMarshalled a signer (Body (body v)) = Inr sb" and
        msg': "msg' = mk (v\<lparr>verificationHeader :=
            Some (VerificationHeader (Some sb) (Some sm) (Some so) None)\<rparr>)"
        by auto
      let ?h = "VerificationHeader (Some sb) (Some sm) (Some so) None"
      have o: "getOrigin (Some ?h) = None"
        by (simp add: getOrigin_def)
      have "verifyMatryoshkaLevel a (Body (body v)) (metaHeader v) (Some ?h) = None"
        unfolding verifyMatryoshkaLevel_innermost [OF o]
        using vm verify_calculated [OF valid so] verify_calculated [OF valid sb]
        by (simp add: GetMetaSignature_def GetOriginSignature_def GetBodySignature_def)
      then show ?thesis
        unfolding msg' by (simp add: verifyServiceMessage_supported [OF mk])
    next
      case (Some h)
      with rest have
        so: "CalculateMarshalled a signer (Verification (Some h)) = Inr so" and
        msg': "msg' = mk (v\<lparr>verificationHeader :=
            Some (VerificationHeader None (Some sm) (Some so) (Some h))\<rparr>)"
        by auto
      let ?h = "VerificationHeader None (Some sm) (Some so) (Some h)"
      have o: "getOrigin (Some ?h) = Some h"
        by (simp add: getOrigin_def)
      from prior shape Some have
        inner: "verifyMatryoshkaLevel a (Body (body v)) (getOriginMeta (metaHeader v)) (Some h) = None"
        by blast
      have "verifyMatryoshkaLevel a (Body (body v)) (metaHeader v) (Some ?h) = None"
        unfolding verifyMatryoshkaLevel_upper [OF o]
        using vm verify_calculated [OF valid so] inner
        by (simp add: GetMetaSignature_def GetOriginSignature_def GetBodySignature_def)
      then show ?thesis
        unfolding msg' by (simp add: verifyServiceMessage_supported [OF mk])
    qed
  qed
  from signServiceMessage_Return_supported [OF sign]
  consider "msg = NilMsg" | "msg = OtherValue"
    | t v where "msg = Request t v" "t \<noteq> OtherRequest"
    | t v where "msg = Response t v" "t \<noteq> OtherResponse"
    by blast
  then show ?thesis
  proof cases
    case 1
    with sign show ?thesis
      by (simp add: signServiceMessage_def verifyServiceMessage_def)
  next
    case 2
    with sign show ?thesis
      by (simp add: signServiceMessage_def)
  next
    case 3
    then show ?thesis
      using supported [of "Request t" t AccountingBalanceResponse v] by simp
  next
    case 4
    then show ?thesis
      using supported [of "Response t" AccountingBalanceRequest t v] by simp
  qed
qed

lemma example_sign_relayed:
  "signServiceMessage exampleApi exampleSigner (Request ContainerGetRequest relayedFields) =
     Return (Request ContainerGetRequest (relayedFields\<lparr>verificationHeader := Some relayedHdr\<rparr>), None)"
  by (simp add: signServiceMessage_def signServiceMessageParts_relay exampleSigner_calculates
      ReadSignedData_def exampleApi_simps relayedFields_def relayedHdr_def)

theorem sign_then_verify_witness:
  "signServiceMessage exampleApi exampleSigner (Request ContainerGetRequest relayedFields) =
     Return (Request ContainerGetRequest (relayedFields\<lparr>verificationHeader := Some relayedHdr\<rparr>), None) \<and>
   verificationHeader relayedFields = Some exampleHdr1 \<and>
   verifyMatryoshkaLevel exampleApi (Body (body relayedFields))
     (getOriginMeta (metaHeader relayedFields)) (Some exampleHdr1) = None \<and>
   verifyServiceMessage exampleApi
     (Request ContainerGetRequest (relayedFields\<lparr>verificationHeader := Some relayedHdr\<rparr>)) =
     Return None"
proof -
  have inner: "verifyMatryoshkaLevel exampleApi (Body (body relayedFields))
      (getOriginMeta (metaHeader relayedFields)) (Some exampleHdr1) = None"
    using example_verify_hdr1 by (simp add: relayedFields_def getOriginMeta_def)
  have h: "verificationHeader relayedFields = Some exampleHdr1"
    by (simp add: relayedFields_def)
  have prior: "\<forall>v h. ((\<exists>t. Request ContainerGetRequest relayedFields = Request t v) \<or>
        (\<exists>t. Request ContainerGetRequest relayedFields = Response t v)) \<and>
        verificationHeader v = Some h \<longrightarrow>
      verifyMatryoshkaLevel exampleApi (Body (body v)) (getOriginMeta (metaHeader v)) (Some h) = None"
    using inner h by auto
  from sign_then_verify [OF exampleSigner_valid example_sign_relayed prior]
    example_sign_relayed inner h
  show ?thesis by simp
qed

end
